theory Spec2Isabelle
  imports Complex_Main "HOL-Library.AList" "HOL-Library.Sublist"
begin

section \<open>Shared data model (models.py)\<close>

text \<open>
  The enumerations of \<^verbatim>\<open>models.py\<close>. Python floats are modelled as real numbers
  throughout: every property below is about comparisons, sums and clamping, none about
  rounding.
\<close>

datatype JobStatus = PENDING | RUNNING | COMPLETED | FAILED | CANCELLED

datatype JobPriority = LOW | MEDIUM | HIGH | URGENT

text \<open>The exceptions the modelled code can raise.\<close>

datatype py_error = ZeroDivisionError | TypeError | ValueError | AttributeError

section \<open>Worker scaler (services/worker\_scaler.py)\<close>

text \<open>
  \<^verbatim>\<open>WorkerMetrics\<close> keeps the fields the decision function reads; the scaler's state
  is the part of \<^verbatim>\<open>WorkerScaler.__init__\<close> that the decision depends on. The
  worker table is a dictionary; only its values are read, so it is a list of pairs.
\<close>

record WorkerMetrics =
  worker_status :: string
  current_jobs :: int
  max_concurrent_jobs :: int

record WorkerScaler =
  current_workers :: int
  min_workers :: int
  max_workers :: int
  scale_up_threshold :: real
  scale_down_threshold :: real
  worker_metrics :: "(string \<times> WorkerMetrics) list"

text \<open>
  The inner block of the scale-up branch: entered only when
  \<^verbatim>\<open>current_workers < max_workers\<close>.
\<close>

definition scale_up_target :: "WorkerScaler \<Rightarrow> int \<Rightarrow> string \<times> int \<times> string" where
  "scale_up_target s queue_size =
     (if queue_size > 50 then
        (''scale_up'', min (current_workers s + 5) (max_workers s),
         ''High queue load - adding 5 workers'')
      else if queue_size > 20 then
        (''scale_up'', min (current_workers s + 3) (max_workers s),
         ''Medium queue load - adding 3 workers'')
      else
        (''scale_up'', min (current_workers s + 1) (max_workers s),
         ''Moderate load - adding 1 worker''))"

definition no_action :: "WorkerScaler \<Rightarrow> string \<times> int \<times> string" where
  "no_action s = (''no_action'', current_workers s, ''Load within acceptable range'')"

text \<open>
  \<^verbatim>\<open>_determine_scaling_action\<close>. The condition is a Python \<^verbatim>\<open>or\<close> chain, evaluated
  left to right: the quotient \<^verbatim>\<open>current_load / total_capacity\<close> is computed only when
  the first two tests are false, and raises \<^verbatim>\<open>ZeroDivisionError\<close> for an empty fleet.
  When the scale-up condition holds but the fleet is already at \<^verbatim>\<open>max_workers\<close>, the
  \<^verbatim>\<open>elif\<close> is skipped and the function falls through to the final return.
\<close>

definition determine_scaling_action ::
  "WorkerScaler \<Rightarrow> real \<Rightarrow> int \<Rightarrow> int \<Rightarrow> int \<Rightarrow> py_error + (string \<times> int \<times> string)" where
  "determine_scaling_action s load_score queue_size current_load total_capacity =
     (let up = (if current_workers s < max_workers s
                then Inr (scale_up_target s queue_size) else Inr (no_action s))
      in if load_score > scale_up_threshold s then up
         else if queue_size > 10 then up
         else if total_capacity = 0 then Inl ZeroDivisionError
         else if real_of_int current_load / real_of_int total_capacity > 0.8 then up
         else if load_score < scale_down_threshold s \<and> queue_size = 0
                 \<and> current_workers s > min_workers s then
           (let idle_workers = int (length (filter (\<lambda>(k, w). worker_status w = ''idle'')
                                               (worker_metrics s)))
            in if idle_workers > 2 then
                 Inr (''scale_down'', max (current_workers s - 1) (min_workers s),
                      ''Low load - removing 1 idle worker'')
               else Inr (no_action s))
         else Inr (no_action s))"


section \<open>Python values shared by the services\<close>

text \<open>
  An exception as the services read it: \<^verbatim>\<open>type(error).__name__\<close>, \<^verbatim>\<open>str(error)\<close>
  and the names of the classes it is an instance of (for \<^verbatim>\<open>isinstance\<close>).
\<close>

record py_exception =
  exc_type :: string
  exc_message :: string
  exc_classes :: "string list"

definition isinstance :: "py_exception \<Rightarrow> string list \<Rightarrow> bool" where
  "isinstance error classes = (\<exists>c \<in> set classes. c \<in> set (exc_classes error))"

text \<open>\<^verbatim>\<open>str.lower()\<close> on ASCII text, and the substring test \<^verbatim>\<open>pattern in text\<close>.\<close>

definition lower_char :: "char \<Rightarrow> char" where
  "lower_char c =
     (case map_of (zip ''ABCDEFGHIJKLMNOPQRSTUVWXYZ'' ''abcdefghijklmnopqrstuvwxyz'') c of
        Some l \<Rightarrow> l
      | None \<Rightarrow> c)"

definition lower :: "string \<Rightarrow> string" where
  "lower s = map lower_char s"

fun contains :: "string \<Rightarrow> string \<Rightarrow> bool" where
  "contains [] pattern = (pattern = [])"
| "contains (c # cs) pattern = (prefix pattern (c # cs) \<or> contains cs pattern)"

text \<open>
  A value of a job's \<^verbatim>\<open>metadata\<close> bag (\<^verbatim>\<open>Dict[str, Any]\<close>): a number or a string.
  Timestamps are seconds on a common clock.
\<close>

datatype meta_value = MetaNum real | MetaStr string

record ProcessingPipeline =
  pl_pipeline_id :: string
  pl_name :: string
  pl_steps :: "string list"

record JobResult =
  success :: bool
  output_files :: "string list"
  result_error_message :: "string option"
  processing_time_seconds :: real

text \<open>
  \<^verbatim>\<open>Job\<close>. The priority is the \<^verbatim>\<open>JobPriority\<close> member that the field's annotation
  declares; \<^verbatim>\<open>.value\<close> of a member is its lower-case name.
\<close>

record Job =
  job_id :: string
  file_id :: string
  pipeline_id :: "string option"
  custom_pipeline :: "ProcessingPipeline option"
  status :: JobStatus
  priority :: JobPriority
  result :: "JobResult option"
  error_message :: "string option"
  created_at :: real
  started_at :: "real option"
  completed_at :: "real option"
  callback_url :: "string option"
  metadata :: "(string \<times> meta_value) list"


section \<open>Dead letter queue (services/dead\_letter\_queue.py)\<close>


datatype DeadLetterAction = RETRY_LATER | MANUAL_REVIEW | ARCHIVE | DELETE | NOTIFY












section \<open>Retry handler (services/retry\_handler.py)\<close>

datatype RetryStrategy = EXPONENTIAL_BACKOFF | LINEAR_BACKOFF | FIXED_INTERVAL | IMMEDIATE

datatype FailureType = TRANSIENT | PERMANENT | RATE_LIMIT | TIMEOUT | UNKNOWN

record RetryConfig =
  max_attempts :: int
  strategy :: RetryStrategy
  base_delay_seconds :: real
  max_delay_seconds :: real
  backoff_multiplier :: real
  jitter :: bool
  retry_on_exceptions :: "string list"

text \<open>\<^verbatim>\<open>RetryConfig()\<close> with the list that \<^verbatim>\<open>__post_init__\<close> fills in.\<close>

definition default_config :: RetryConfig where
  "default_config =
     \<lparr>max_attempts = 3, strategy = EXPONENTIAL_BACKOFF, base_delay_seconds = 1,
      max_delay_seconds = 300, backoff_multiplier = 2, jitter = True,
      retry_on_exceptions = [''ConnectionError'', ''TimeoutError'', ''TemporaryFailure'',
                             ''ResourceExhausted'', ''RateLimitError'']\<rparr>"

record RetryAttempt =
  attempt_number :: int
  timestamp :: real
  delay_seconds :: real
  ra_error_message :: string
  ra_error_type :: string
  will_retry :: bool

record RetryHandler =
  retry_history :: "string \<Rightarrow> RetryAttempt list option"

text \<open>
  \<^verbatim>\<open>_load_failure_patterns\<close> builds a dictionary from a literal that names the key
  \<^verbatim>\<open>"timeout"\<close> twice: a dictionary keeps a key at the place of its first insertion
  and takes the value of the last, which is what \<open>AList.update\<close> does.
\<close>

definition failure_patterns_literal :: "(string \<times> FailureType) list" where
  "failure_patterns_literal =
     [(''connection'', TRANSIENT), (''timeout'', TRANSIENT), (''network'', TRANSIENT),
      (''temporary'', TRANSIENT), (''resource'', TRANSIENT),
      (''invalid'', PERMANENT), (''not found'', PERMANENT), (''permission'', PERMANENT),
      (''authentication'', PERMANENT), (''format'', PERMANENT), (''corrupt'', PERMANENT),
      (''rate limit'', RATE_LIMIT), (''too many'', RATE_LIMIT), (''quota'', RATE_LIMIT),
      (''timeout'', TIMEOUT), (''deadline'', TIMEOUT)]"

definition failure_patterns :: "(string \<times> FailureType) list" where
  "failure_patterns = foldl (\<lambda>d (k, v). AList.update k v d) [] failure_patterns_literal"

text \<open>
  \<^verbatim>\<open>_classify_failure\<close>: the first pattern, in the dictionary's order, that occurs in
  the lower-cased message or type name decides; the \<^verbatim>\<open>isinstance\<close> tests come after.
\<close>

fun first_match :: "(string \<times> FailureType) list \<Rightarrow> string \<Rightarrow> string \<Rightarrow> FailureType option" where
  "first_match [] message type_name = None"
| "first_match ((pattern, failure_type) # ps) message type_name =
     (if contains message pattern \<or> contains type_name pattern then Some failure_type
      else first_match ps message type_name)"

definition classify_failure :: "py_exception \<Rightarrow> FailureType" where
  "classify_failure error =
     (let message = lower (exc_message error);
          type_name = lower (exc_type error)
      in case first_match failure_patterns message type_name of
           Some failure_type \<Rightarrow> failure_type
         | None \<Rightarrow>
             if isinstance error [''ConnectionError'', ''OSError''] then TRANSIENT
             else if isinstance error [''ValueError'', ''TypeError''] then PERMANENT
             else if isinstance error [''TimeoutError''] then TIMEOUT
             else UNKNOWN)"

text \<open>
  \<^verbatim>\<open>x ** n\<close> for a float and an integer exponent: zero to a negative power raises
  \<^verbatim>\<open>ZeroDivisionError\<close>.
\<close>

definition py_pow :: "real \<Rightarrow> int \<Rightarrow> py_error + real" where
  "py_pow x n =
     (if x = 0 \<and> n < 0 then Inl ZeroDivisionError
      else if 0 \<le> n then Inr (x ^ nat n)
      else Inr (1 / x ^ nat (- n)))"

text \<open>
  \<^verbatim>\<open>random.uniform(a, b)\<close> is \<^verbatim>\<open>a + (b - a) * random()\<close>; \<open>u\<close> stands for the draw
  \<^verbatim>\<open>random()\<close>, a number from 0 to 1.
\<close>

definition uniform :: "real \<Rightarrow> real \<Rightarrow> real \<Rightarrow> real" where
  "uniform a b u = a + (b - a) * u"

text \<open>
  \<^verbatim>\<open>_calculate_delay\<close>. \<^verbatim>\<open>IMMEDIATE\<close> returns at once; an exception in the body (the
  power) is caught and answered with \<^verbatim>\<open>base_delay_seconds\<close>. The clamp to
  \<^verbatim>\<open>max_delay_seconds\<close> comes before the jitter, the floor of 0.1 after it.
\<close>

definition strategy_delay :: "int \<Rightarrow> RetryConfig \<Rightarrow> py_error + real" where
  "strategy_delay attempt_count config =
     (if strategy config = FIXED_INTERVAL then Inr (base_delay_seconds config)
      else if strategy config = LINEAR_BACKOFF
        then Inr (base_delay_seconds config * real_of_int attempt_count)
      else if strategy config = EXPONENTIAL_BACKOFF then
        (case py_pow (backoff_multiplier config) (attempt_count - 1) of
           Inl e \<Rightarrow> Inl e
         | Inr p \<Rightarrow> Inr (base_delay_seconds config * p))
      else Inr (base_delay_seconds config))"

definition calculate_delay :: "int \<Rightarrow> RetryConfig \<Rightarrow> FailureType \<Rightarrow> real \<Rightarrow> real" where
  "calculate_delay attempt_count config failure_type u =
     (if strategy config = IMMEDIATE then 0
      else case strategy_delay attempt_count config of
        Inl e \<Rightarrow> base_delay_seconds config
      | Inr delay0 \<Rightarrow>
          (let delay1 = (if failure_type = RATE_LIMIT then delay0 * 2
                         else if failure_type = TIMEOUT then delay0 * 1.5
                         else delay0);
               delay2 = min delay1 (max_delay_seconds config);
               delay3 = (if jitter config
                         then (let jitter_amount = delay2 * 0.1
                               in delay2 + uniform (- jitter_amount) jitter_amount u)
                         else delay2)
           in max delay3 0.1))"

definition get_attempt_count :: "RetryHandler \<Rightarrow> string \<Rightarrow> int" where
  "get_attempt_count h jid = (case retry_history h jid of None \<Rightarrow> 0 | Some l \<Rightarrow> int (length l))"

text \<open>\<^verbatim>\<open>_record_retry_attempt\<close>: the history of a job keeps its last ten attempts.\<close>

definition record_retry_attempt ::
  "RetryHandler \<Rightarrow> string \<Rightarrow> int \<Rightarrow> real \<Rightarrow> py_exception \<Rightarrow> real \<Rightarrow> RetryHandler" where
  "record_retry_attempt h jid n delay error now =
     (let old = (case retry_history h jid of None \<Rightarrow> [] | Some l \<Rightarrow> l);
          attempt = \<lparr>attempt_number = n, timestamp = now, delay_seconds = delay,
                     ra_error_message = exc_message error, ra_error_type = exc_type error,
                     will_retry = (n < max_attempts default_config)\<rparr>;
          new = old @ [attempt];
          kept = (if length new > 10 then drop (length new - 10) new else new)
      in h\<lparr>retry_history := (retry_history h)(jid \<mapsto> kept)\<rparr>)"

text \<open>
  \<^verbatim>\<open>should_retry\<close>: the answer and the handler after the call. \<open>config\<close> is the
  optional argument (\<^verbatim>\<open>config or self.default_config\<close>).
\<close>

definition should_retry ::
  "RetryHandler \<Rightarrow> Job \<Rightarrow> py_exception \<Rightarrow> RetryConfig option \<Rightarrow> real \<Rightarrow> real
     \<Rightarrow> (bool \<times> real) \<times> RetryHandler" where
  "should_retry h job error config u now =
     (let retry_config = (case config of Some c \<Rightarrow> c | None \<Rightarrow> default_config);
          current_attempts = get_attempt_count h (job_id job)
      in if current_attempts \<ge> max_attempts retry_config then ((False, 0), h)
         else let failure_type = classify_failure error
              in if failure_type = PERMANENT then ((False, 0), h)
                 else if exc_type error \<notin> set (retry_on_exceptions retry_config)
                   then ((False, 0), h)
                 else let delay = calculate_delay current_attempts retry_config failure_type u
                      in ((True, delay),
                          record_retry_attempt h (job_id job) (current_attempts + 1)
                            delay error now))"

text \<open>
  \<^verbatim>\<open>Job(job_id=..., file_id=...)\<close> with every other field at its default, as
  \<^verbatim>\<open>execute_with_retry\<close> builds it; \<open>now\<close> is the clock reading that
  \<^verbatim>\<open>created_at\<close> takes.
\<close>

definition Job_new :: "string \<Rightarrow> string \<Rightarrow> real \<Rightarrow> Job" where
  "Job_new jid fid now =
     \<lparr>job_id = jid, file_id = fid, pipeline_id = None, custom_pipeline = None,
      status = PENDING, priority = MEDIUM, result = None, error_message = None,
      created_at = now, started_at = None, completed_at = None, callback_url = None,
      metadata = []\<rparr>"


text \<open>The handler after \<^verbatim>\<open>RetryHandler.__init__\<close>: no history.\<close>

definition RetryHandler_new :: RetryHandler where
  "RetryHandler_new = \<lparr>retry_history = Map.empty\<rparr>"

section \<open>Job requests (models.py) and the job manager (services/job\_manager.py)\<close>

record JobRequest =
  rq_file_id :: string
  rq_pipeline_id :: "string option"
  rq_custom_pipeline :: "ProcessingPipeline option"
  rq_priority :: JobPriority
  rq_callback_url :: "string option"
  rq_metadata :: "(string \<times> meta_value) list"

text \<open>
  Python truth values: a string is true when it is not empty, an optional value when it
  is not \<^verbatim>\<open>None\<close> (a pipeline object is always true).
\<close>

fun truthy_str :: "string option \<Rightarrow> bool" where
  "truthy_str None = False"
| "truthy_str (Some s) = (s \<noteq> [])"

datatype field_value = StrField "string option" | PipelineField "ProcessingPipeline option"

fun truthy :: "field_value \<Rightarrow> bool" where
  "truthy (StrField s) = truthy_str s"
| "truthy (PipelineField p) = (p \<noteq> None)"

text \<open>
  \<^verbatim>\<open>JobRequest.validate_pipeline\<close>, the validator of the field \<^verbatim>\<open>pipeline_id\<close>:
  \<open>v\<close> is the field's value and \<open>values\<close> the dictionary of the fields validated
  before it.
\<close>

definition validate_pipeline ::
  "string option \<Rightarrow> (string \<times> field_value) list \<Rightarrow> py_error + string option" where
  "validate_pipeline v values =
     (if (case map_of values ''custom_pipeline'' of None \<Rightarrow> True | Some c \<Rightarrow> \<not> truthy c)
      then (if \<not> truthy_str v then Inl ValueError else Inr v)
      else Inr v)"

text \<open>
  Building a \<^verbatim>\<open>JobRequest\<close> runs the validator. Which fields the validation library
  has already put into \<open>values\<close> when it does is the library's business:
  \<open>custom_seen\<close> says whether \<^verbatim>\<open>custom_pipeline\<close> (declared after
  \<^verbatim>\<open>pipeline_id\<close>) is among them.
\<close>

definition validated_before :: "bool \<Rightarrow> JobRequest \<Rightarrow> (string \<times> field_value) list" where
  "validated_before custom_seen r =
     (''file_id'', StrField (Some (rq_file_id r)))
     # (if custom_seen then [(''custom_pipeline'', PipelineField (rq_custom_pipeline r))]
        else [])"

definition JobRequest_new :: "bool \<Rightarrow> JobRequest \<Rightarrow> py_error + JobRequest" where
  "JobRequest_new custom_seen r =
     (case validate_pipeline (rq_pipeline_id r) (validated_before custom_seen r) of
        Inl e \<Rightarrow> Inl e
      | Inr v \<Rightarrow> Inr (r\<lparr>rq_pipeline_id := v\<rparr>))"

text \<open>
  What \<^verbatim>\<open>process_file\<close> hands back to \<^verbatim>\<open>process_job_async\<close>: a result with
  \<^verbatim>\<open>success\<close> true (the output files), one with \<^verbatim>\<open>success\<close> false (the error text,
  if any), or an exception; the real number is the measured processing time. The
  processing service is a collaborator, so it is a parameter.
\<close>

datatype ProcessOutcome =
  Succeeded "string list" real | Unsuccessful "string option" real | Raised string

record ProcessingService =
  get_pipeline :: "string \<Rightarrow> ProcessingPipeline option"
  process_file :: "string \<Rightarrow> ProcessingPipeline \<Rightarrow> Job \<Rightarrow> ProcessOutcome"

text \<open>
  The manager: the dictionary \<^verbatim>\<open>active_jobs\<close>, the jobs handed to the datastore's
  \<^verbatim>\<open>save_job\<close> (oldest first), the priority queue's content, the ids that have a
  worker task, and the counter of running jobs.
\<close>

record JobManager =
  active_jobs :: "string \<Rightarrow> Job option"
  saved_jobs :: "Job list"
  job_queue :: "(int \<times> string) list"
  worker_tasks :: "string set"
  current_jobs_count :: int

definition JobManager_new :: JobManager where
  "JobManager_new =
     \<lparr>active_jobs = Map.empty, saved_jobs = [], job_queue = [], worker_tasks = {},
      current_jobs_count = 0\<rparr>"

definition save_job :: "JobManager \<Rightarrow> Job \<Rightarrow> JobManager" where
  "save_job m job = m\<lparr>saved_jobs := saved_jobs m @ [job]\<rparr>"



text \<open>
  A job object is shared with \<^verbatim>\<open>active_jobs\<close>: assigning to one of its fields
  changes the dictionary's entry.
\<close>

definition set_job :: "JobManager \<Rightarrow> string \<Rightarrow> Job \<Rightarrow> JobManager" where
  "set_job m jid job = m\<lparr>active_jobs := (active_jobs m)(jid \<mapsto> job)\<rparr>"

fun get_priority_value :: "JobPriority \<Rightarrow> int" where
  "get_priority_value URGENT = 1"
| "get_priority_value HIGH = 2"
| "get_priority_value MEDIUM = 3"
| "get_priority_value LOW = 4"

text \<open>
  \<^verbatim>\<open>create_job\<close>; \<open>new_id\<close> is the identifier that \<^verbatim>\<open>uuid.uuid4()\<close> yields for
  the new job.
\<close>

definition create_job :: "JobManager \<Rightarrow> JobRequest \<Rightarrow> string \<Rightarrow> real \<Rightarrow> Job \<times> JobManager" where
  "create_job m job_request new_id now =
     (let job = \<lparr>job_id = new_id, file_id = rq_file_id job_request,
                 pipeline_id = rq_pipeline_id job_request,
                 custom_pipeline = rq_custom_pipeline job_request,
                 status = PENDING, priority = rq_priority job_request,
                 result = None, error_message = None, created_at = now,
                 started_at = None, completed_at = None,
                 callback_url = rq_callback_url job_request,
                 metadata = rq_metadata job_request\<rparr>;
          m1 = set_job m (job_id job) job;
          m2 = save_job m1 job;
          m3 = m2\<lparr>job_queue := job_queue m2 @ [(get_priority_value (priority job), job_id job)]\<rparr>
      in (job, m3))"

text \<open>
  The endpoint \<^verbatim>\<open>POST /api/v1/jobs\<close> of \<^verbatim>\<open>main.py\<close>: the request body becomes a
  \<^verbatim>\<open>JobRequest\<close>, which \<^verbatim>\<open>create_job\<close> then receives.
\<close>

definition api_create_job ::
  "JobManager \<Rightarrow> bool \<Rightarrow> JobRequest \<Rightarrow> string \<Rightarrow> real \<Rightarrow> py_error + (Job \<times> JobManager)" where
  "api_create_job m custom_seen body new_id now =
     (case JobRequest_new custom_seen body of
        Inl e \<Rightarrow> Inl e
      | Inr job_request \<Rightarrow> Inr (create_job m job_request new_id now))"


















text \<open>
  A processing service, a pipeline and a request for the examples: the service knows the
  built-in pipeline \<^verbatim>\<open>image_resize\<close> and processes every file with success.
\<close>

definition example_pipeline :: ProcessingPipeline where
  "example_pipeline =
     \<lparr>pl_pipeline_id = ''image_resize'', pl_name = ''Image Resize'', pl_steps = [''resize'']\<rparr>"

definition example_service :: ProcessingService where
  "example_service =
     \<lparr>get_pipeline = (\<lambda>pid. if pid = ''image_resize'' then Some example_pipeline else None),
      process_file = (\<lambda>path pipeline job. Succeeded [path @ ''.out''] 2)\<rparr>"

definition example_request :: JobRequest where
  "example_request =
     \<lparr>rq_file_id = ''file-1'', rq_pipeline_id = Some ''image_resize'',
      rq_custom_pipeline = None, rq_priority = MEDIUM, rq_callback_url = None,
      rq_metadata = []\<rparr>"

section \<open>Batch processor (services/batch\_processor.py)\<close>

record BatchJobProgress =
  total_files :: int
  completed_files :: int
  failed_files :: int
  running_files :: int
  pending_files :: int
  progress_percentage :: real

record BatchJobResult =
  res_success :: bool
  res_total_files :: int
  res_completed_files :: int
  res_failed_files :: int
  successful_jobs :: "string list"
  failed_jobs :: "string list"

record BatchJob =
  batch_id :: string
  file_ids :: "string list"
  b_pipeline_id :: "string option"
  b_custom_pipeline :: "ProcessingPipeline option"
  b_status :: JobStatus
  b_priority :: JobPriority
  b_progress :: "BatchJobProgress option"
  b_result :: "BatchJobResult option"
  b_error_message :: "string option"
  chunk_size :: int

text \<open>
  What \<^verbatim>\<open>asyncio.gather(..., return_exceptions=True)\<close> hands back for one file of a
  chunk: the exception that \<^verbatim>\<open>_process_single_file_in_batch\<close> raised, or the job it
  returned (the job manager holds every job it has created, so \<^verbatim>\<open>get_job\<close> finds it).
\<close>

datatype gather_result = Exc string | JobDone Job

text \<open>
  The chunks \<^verbatim>\<open>[ids[i:i + n] for i in range(0, len(ids), n)]\<close>: \<^verbatim>\<open>range\<close> raises
  \<^verbatim>\<open>ValueError\<close> for a step of zero and is empty for a negative step.
\<close>

function chunks :: "nat \<Rightarrow> 'a list \<Rightarrow> 'a list list" where
  "chunks n xs = (if n = 0 \<or> xs = [] then [] else take n xs # chunks n (drop n xs))"
  by pat_completeness auto
termination
  by (relation "measure (\<lambda>(n, xs). length xs)") auto

definition file_chunks :: "int \<Rightarrow> 'a list \<Rightarrow> py_error + 'a list list" where
  "file_chunks n xs =
     (if n = 0 then Inl ValueError else if n < 0 then Inr [] else Inr (chunks (nat n) xs))"

text \<open>
  The local state of \<^verbatim>\<open>process_batch_job_async\<close>: the batch job object, the jobs
  collected in \<^verbatim>\<open>batch_job_results[batch_id]\<close> and the two lists of file ids.
\<close>

record BatchRun =
  batch_job :: BatchJob
  jobs :: "Job list"
  run_successful :: "string list"
  run_failed :: "string list"

text \<open>\<^verbatim>\<open>_update_batch_progress\<close>: the counts come from the collected jobs.\<close>

definition update_batch_progress :: "BatchJob \<Rightarrow> Job list \<Rightarrow> BatchJob" where
  "update_batch_progress b js =
     (let completed = int (length (filter (\<lambda>j. status j = COMPLETED) js));
          failed = int (length (filter (\<lambda>j. status j = FAILED) js));
          running = int (length (filter (\<lambda>j. status j = RUNNING) js));
          pending = int (length (file_ids b)) - completed - failed - running;
          percentage = (if file_ids b \<noteq> []
                        then (real_of_int completed / real (length (file_ids b))) * 100
                        else 0)
      in b\<lparr>b_progress := Some \<lparr>total_files = int (length (file_ids b)),
                                completed_files = completed, failed_files = failed,
                                running_files = running, pending_files = pending,
                                progress_percentage = percentage\<rparr>\<rparr>)"

text \<open>
  The body of the loop over a chunk's results: file the result, then update the progress.
\<close>

definition handle_result :: "BatchRun \<Rightarrow> string \<times> gather_result \<Rightarrow> BatchRun" where
  "handle_result st item =
     (let st1 = (case snd item of
                   Exc e \<Rightarrow> st\<lparr>run_failed := run_failed st @ [fst item]\<rparr>
                 | JobDone j \<Rightarrow>
                     (let st0 = st\<lparr>jobs := jobs st @ [j]\<rparr>
                      in if status j = COMPLETED
                         then st0\<lparr>run_successful := run_successful st0 @ [fst item]\<rparr>
                         else st0\<lparr>run_failed := run_failed st0 @ [fst item]\<rparr>))
      in st1\<lparr>batch_job := update_batch_progress (batch_job st1) (jobs st1)\<rparr>)"

text \<open>The states a loop passes through, one per iteration.\<close>

fun run_states :: "('s \<Rightarrow> 'a \<Rightarrow> 's) \<Rightarrow> 's \<Rightarrow> 'a list \<Rightarrow> 's list" where
  "run_states f s [] = []"
| "run_states f s (x # xs) = f s x # run_states f (f s x) xs"

fun process_chunks :: "BatchRun \<Rightarrow> (string \<times> gather_result) list list \<Rightarrow> BatchRun list" where
  "process_chunks st [] = []"
| "process_chunks st (c # cs) =
     (let tr = run_states handle_result st c
      in tr @ process_chunks (last (st # tr)) cs)"

text \<open>\<^verbatim>\<open>_complete_batch_job\<close>: the final progress is written with 100 percent.\<close>

definition complete_batch_job :: "BatchJob \<Rightarrow> string list \<Rightarrow> string list \<Rightarrow> BatchJob" where
  "complete_batch_job b successful failed =
     b\<lparr>b_status := COMPLETED,
       b_result := Some \<lparr>res_success = (length failed = 0),
                         res_total_files = int (length (file_ids b)),
                         res_completed_files = int (length successful),
                         res_failed_files = int (length failed),
                         successful_jobs = successful, failed_jobs = failed\<rparr>,
       b_progress := Some \<lparr>total_files = int (length (file_ids b)),
                           completed_files = int (length successful),
                           failed_files = int (length failed),
                           running_files = 0, pending_files = 0,
                           progress_percentage = 100\<rparr>\<rparr>"

definition fail_batch_job :: "BatchJob \<Rightarrow> string \<Rightarrow> BatchJob" where
  "fail_batch_job b msg = b\<lparr>b_status := FAILED, b_error_message := Some msg\<rparr>"

text \<open>
  The pipeline of a batch: the registered one if \<^verbatim>\<open>pipeline_id\<close> is set, else the
  custom one.
\<close>

definition batch_pipeline :: "ProcessingService \<Rightarrow> BatchJob \<Rightarrow> ProcessingPipeline option" where
  "batch_pipeline svc b =
     (if truthy_str (b_pipeline_id b) then get_pipeline svc (the (b_pipeline_id b))
      else b_custom_pipeline b)"

text \<open>
  \<^verbatim>\<open>process_batch_job_async\<close> for a batch job that \<^verbatim>\<open>active_batch_jobs\<close> holds: the
  values that the batch job object takes, in order, from the start of the run to its end.
  \<open>outcome_of i\<close> is what the gather hands back for the file at position \<open>i\<close>;
  \<open>start_batch\<close> is the first block of the function (status running, progress
  initialised), \<open>gathered\<close> pairs the files with what came back for them.
\<close>

definition start_batch :: "BatchJob \<Rightarrow> BatchJob" where
  "start_batch b =
     (let total = int (length (file_ids b))
      in b\<lparr>b_status := RUNNING,
            b_progress := Some \<lparr>total_files = total, completed_files = 0,
                                failed_files = 0, running_files = 0,
                                pending_files = total, progress_percentage = 0\<rparr>\<rparr>)"

definition gathered :: "BatchJob \<Rightarrow> (nat \<Rightarrow> gather_result) \<Rightarrow> (string \<times> gather_result) list" where
  "gathered b outcome_of = zip (file_ids b) (map outcome_of [0..<length (file_ids b)])"

definition process_batch_job_async ::
  "ProcessingService \<Rightarrow> BatchJob \<Rightarrow> (nat \<Rightarrow> gather_result) \<Rightarrow> BatchJob list" where
  "process_batch_job_async svc b outcome_of =
     (let b1 = start_batch b
      in case batch_pipeline svc b1 of
           None \<Rightarrow> [b1, fail_batch_job b1 ''Pipeline not found'']
         | Some pipeline \<Rightarrow>
             (case file_chunks (chunk_size b1) (gathered b1 outcome_of) of
                Inl e \<Rightarrow> [b1, fail_batch_job b1 ''range() arg 3 must not be zero'']
              | Inr cs \<Rightarrow>
                  (let st0 = \<lparr>batch_job = b1, jobs = [], run_successful = [], run_failed = []\<rparr>;
                       tr = process_chunks st0 cs;
                       st = last (st0 # tr)
                   in b1 # map batch_job tr
                      @ [complete_batch_job (batch_job st) (run_successful st) (run_failed st)])))"

text \<open>The sum of the four counts of a progress record.\<close>

definition counted_files :: "BatchJobProgress \<Rightarrow> int" where
  "counted_files p = completed_files p + failed_files p + running_files p + pending_files p"

text \<open>The batch job that \<^verbatim>\<open>create_batch_job\<close> makes of a request.\<close>

definition BatchJob_new :: "string \<Rightarrow> string list \<Rightarrow> string option \<Rightarrow> int option \<Rightarrow> BatchJob" where
  "BatchJob_new bid fids pid requested_chunk_size =
     \<lparr>batch_id = bid, file_ids = fids, b_pipeline_id = pid, b_custom_pipeline = None,
      b_status = PENDING, b_priority = MEDIUM, b_progress = None, b_result = None,
      b_error_message = None,
      chunk_size = (case requested_chunk_size of
                      None \<Rightarrow> 50
                    | Some n \<Rightarrow> if n = 0 then 50 else n)\<rparr>"

text \<open>Whether the gather handed back a completed job.\<close>

fun came_back_completed :: "gather_result \<Rightarrow> bool" where
  "came_back_completed (JobDone j) = (status j = COMPLETED)"
| "came_back_completed (Exc e) = False"

text \<open>
  A progress record is consistent with a batch of \<open>F\<close> files when its four counts add
  up to \<open>F\<close> and its percentage is the completed share.
\<close>

definition progress_ok :: "nat \<Rightarrow> BatchJob \<Rightarrow> bool" where
  "progress_ok F b =
     (\<exists>p. b_progress b = Some p \<and> counted_files p = int F \<and> total_files p = int F \<and>
          progress_percentage p = 100 * real_of_int (completed_files p) / real F)"

text \<open>
  A batch of two files for the examples: the job of the first comes back completed, the
  job of the second failed.
\<close>

definition example_batch :: BatchJob where
  "example_batch = BatchJob_new ''batch-1'' [''file-1'', ''file-2''] (Some ''image_resize'') None"

definition example_outcomes :: "nat \<Rightarrow> gather_result" where
  "example_outcomes i =
     (if i = 0 then JobDone ((Job_new ''job-1'' ''file-1'' 0)\<lparr>status := COMPLETED\<rparr>)
      else JobDone ((Job_new ''job-2'' ''file-2'' 0)\<lparr>status := FAILED\<rparr>))"

text \<open>The counts and the percentage of a batch job's progress, for reading a trace.\<close>

definition progress_summary :: "BatchJob \<Rightarrow> (int \<times> int \<times> int \<times> int \<times> real) option" where
  "progress_summary b =
     map_option (\<lambda>p. (completed_files p, failed_files p, running_files p, pending_files p,
                       progress_percentage p)) (b_progress b)"

section \<open>Resource allocator (services/resource\_allocator.py)\<close>

record ResourceRequirement =
  cpu_cores :: real
  memory_mb :: real
  disk_mb :: real
  network_mbps :: real
  estimated_duration_seconds :: int

record WorkerResource =
  worker_id :: string
  available_cpu :: real
  available_memory :: real
  available_disk :: real
  available_network :: real
  max_cpu :: real
  max_memory :: real
  max_disk :: real
  max_network :: real

record ResourceAllocation =
  alloc_job_id :: string
  alloc_worker_id :: string
  allocated_cpu :: real
  allocated_memory :: real
  allocated_disk :: real
  estimated_duration :: int
  priority_score :: int

text \<open>The dictionary that \<^verbatim>\<open>queue_job\<close> pushes, paired with the negated score.\<close>

record QueueEntry =
  qe_priority_score :: int
  qe_job_id :: string
  qe_job :: Job
  processing_types :: "string list"
  queued_at :: real

text \<open>
  The allocator: the heap list \<^verbatim>\<open>job_queue\<close>, the worker dictionary in insertion
  order (its values are iterated) and the allocations by job id.
\<close>

record ResourceAllocator =
  ra_job_queue :: "(int \<times> QueueEntry) list"
  worker_resources :: "(string \<times> WorkerResource) list"
  job_allocations :: "string \<Rightarrow> ResourceAllocation option"

definition ResourceAllocator_new :: ResourceAllocator where
  "ResourceAllocator_new =
     \<lparr>ra_job_queue = [], worker_resources = [], job_allocations = Map.empty\<rparr>"

fun priority_weights :: "JobPriority \<Rightarrow> int" where
  "priority_weights URGENT = 1000"
| "priority_weights HIGH = 100"
| "priority_weights MEDIUM = 10"
| "priority_weights LOW = 1"

definition requirement :: "real \<Rightarrow> real \<Rightarrow> real \<Rightarrow> real \<Rightarrow> int \<Rightarrow> ResourceRequirement" where
  "requirement c m d n t =
     \<lparr>cpu_cores = c, memory_mb = m, disk_mb = d, network_mbps = n,
      estimated_duration_seconds = t\<rparr>"

definition processing_requirements :: "(string \<times> ResourceRequirement) list" where
  "processing_requirements =
     [(''image_resize'', requirement 1.0 512 100 10 30),
      (''image_format_convert'', requirement 1.5 1024 200 10 45),
      (''document_text_extract'', requirement 0.5 256 50 5 60),
      (''document_pdf_generate'', requirement 1.0 512 100 5 90),
      (''video_thumbnail'', requirement 2.0 2048 500 50 120),
      (''video_compress'', requirement 4.0 4096 1000 100 600),
      (''content_analysis'', requirement 1.0 1024 100 10 180),
      (''custom'', requirement 2.0 2048 500 20 300)]"

text \<open>\<^verbatim>\<open>resources.get(key, default)\<close> and \<^verbatim>\<open>register_worker\<close>.\<close>

definition resource_get :: "(string \<times> real) list \<Rightarrow> string \<Rightarrow> real \<Rightarrow> real" where
  "resource_get resources k d = (case map_of resources k of Some v \<Rightarrow> v | None \<Rightarrow> d)"

definition register_worker ::
  "ResourceAllocator \<Rightarrow> string \<Rightarrow> (string \<times> real) list \<Rightarrow> ResourceAllocator" where
  "register_worker a wid resources =
     (let w = \<lparr>worker_id = wid,
                available_cpu = resource_get resources ''cpu'' 2,
                available_memory = resource_get resources ''memory'' 4096,
                available_disk = resource_get resources ''disk'' 10000,
                available_network = resource_get resources ''network'' 100,
                max_cpu = resource_get resources ''cpu'' 2,
                max_memory = resource_get resources ''memory'' 4096,
                max_disk = resource_get resources ''disk'' 10000,
                max_network = resource_get resources ''network'' 100\<rparr>
      in a\<lparr>worker_resources := AList.update wid w (worker_resources a)\<rparr>)"

text \<open>
  \<^verbatim>\<open>_calculate_priority_score\<close>: \<^verbatim>\<open>int(...)\<close> truncates towards zero; a metadata
  value that is no number makes \<^verbatim>\<open>min\<close> raise, and the handler answers 10.
\<close>

definition py_int :: "real \<Rightarrow> int" where
  "py_int r = (if 0 \<le> r then \<lfloor>r\<rfloor> else \<lceil>r\<rceil>)"

fun complexity_sum :: "string list \<Rightarrow> real" where
  "complexity_sum [] = 0"
| "complexity_sum (t # ts) =
     (case map_of processing_requirements t of
        Some req \<Rightarrow> cpu_cores req + memory_mb req / 1024 + complexity_sum ts
      | None \<Rightarrow> complexity_sum ts)"

definition calculate_priority_score :: "Job \<Rightarrow> string list \<Rightarrow> real \<Rightarrow> int" where
  "calculate_priority_score job types now =
     (let base_score = priority_weights (priority job);
          age_seconds = now - created_at job;
          age_factor = min (age_seconds / 3600) 10;
          complexity_factor = min (complexity_sum types) 20
      in case (case map_of (metadata job) ''user_priority'' of
                 None \<Rightarrow> Inr 0
               | Some (MetaNum x) \<Rightarrow> Inr (min x 50)
               | Some (MetaStr s) \<Rightarrow> Inl TypeError) of
           Inl e \<Rightarrow> 10
         | Inr user_boost \<Rightarrow>
             py_int (real_of_int base_score + age_factor + complexity_factor + user_boost))"

text \<open>
  The comparison \<^verbatim>\<open>(a, x) < (b, y)\<close> of two heap items. Tuples compare by their
  first unequal components; when the scores are equal and the entries are not, the two
  dictionaries are compared with \<^verbatim>\<open><\<close>, which raises \<^verbatim>\<open>TypeError\<close>.
\<close>

definition tuple_lt :: "int \<times> QueueEntry \<Rightarrow> int \<times> QueueEntry \<Rightarrow> py_error + bool" where
  "tuple_lt p q =
     (if fst p \<noteq> fst q then Inr (fst p < fst q)
      else if snd p = snd q then Inr False
      else Inl TypeError)"

text \<open>
  \<^verbatim>\<open>heapq._siftdown\<close>, \<^verbatim>\<open>heapq._siftup\<close>, \<^verbatim>\<open>heappush\<close> and \<^verbatim>\<open>heapify\<close>, as
  \<^verbatim>\<open>heapq.py\<close> writes them: the result is the exception, if a comparison raised, and
  the list as the call leaves it.
\<close>

function siftdown_loop ::
  "(int \<times> QueueEntry) list \<Rightarrow> int \<times> QueueEntry \<Rightarrow> nat \<Rightarrow> nat
     \<Rightarrow> py_error option \<times> (int \<times> QueueEntry) list" where
  "siftdown_loop h newitem startpos pos =
     (if pos > startpos then
        (let parentpos = (pos - 1) div 2;
             parent = h ! parentpos
         in case tuple_lt newitem parent of
              Inl e \<Rightarrow> (Some e, h)
            | Inr lt \<Rightarrow>
                if lt then siftdown_loop (h[pos := parent]) newitem startpos parentpos
                else (None, h[pos := newitem]))
      else (None, h[pos := newitem]))"
  by pat_completeness auto
termination
  by (relation "measure (\<lambda>(h, newitem, startpos, pos). pos)") auto

definition siftdown ::
  "(int \<times> QueueEntry) list \<Rightarrow> nat \<Rightarrow> nat \<Rightarrow> py_error option \<times> (int \<times> QueueEntry) list" where
  "siftdown h startpos pos = siftdown_loop h (h ! pos) startpos pos"

function siftup_loop ::
  "(int \<times> QueueEntry) list \<Rightarrow> int \<times> QueueEntry \<Rightarrow> nat \<Rightarrow> nat
     \<Rightarrow> py_error option \<times> (int \<times> QueueEntry) list" where
  "siftup_loop h newitem startpos pos =
     (let childpos = 2 * pos + 1 in
      if childpos < length h then
        (let rightpos = childpos + 1 in
         if rightpos < length h then
           (case tuple_lt (h ! childpos) (h ! rightpos) of
              Inl e \<Rightarrow> (Some e, h)
            | Inr lt \<Rightarrow>
                if \<not> lt then siftup_loop (h[pos := h ! rightpos]) newitem startpos rightpos
                else siftup_loop (h[pos := h ! childpos]) newitem startpos childpos)
         else siftup_loop (h[pos := h ! childpos]) newitem startpos childpos)
      else siftdown (h[pos := newitem]) startpos pos)"
  by pat_completeness auto
termination
  by (relation "measure (\<lambda>(h, newitem, startpos, pos). length h - pos)") auto

definition siftup ::
  "(int \<times> QueueEntry) list \<Rightarrow> nat \<Rightarrow> py_error option \<times> (int \<times> QueueEntry) list" where
  "siftup h pos = siftup_loop h (h ! pos) pos pos"

definition heappush ::
  "(int \<times> QueueEntry) list \<Rightarrow> int \<times> QueueEntry
     \<Rightarrow> py_error option \<times> (int \<times> QueueEntry) list" where
  "heappush h item = siftdown (h @ [item]) 0 (length h)"

fun heapify_loop ::
  "nat list \<Rightarrow> (int \<times> QueueEntry) list \<Rightarrow> py_error option \<times> (int \<times> QueueEntry) list" where
  "heapify_loop [] h = (None, h)"
| "heapify_loop (i # is) h =
     (case siftup h i of
        (Some e, h') \<Rightarrow> (Some e, h')
      | (None, h') \<Rightarrow> heapify_loop is h')"

definition heapify ::
  "(int \<times> QueueEntry) list \<Rightarrow> py_error option \<times> (int \<times> QueueEntry) list" where
  "heapify h = heapify_loop (rev [0..<length h div 2]) h"

text \<open>
  \<^verbatim>\<open>queue_job\<close>: the exception it re-raises, if any, and the allocator after the call
  (the item stays appended when the push raises).
\<close>

definition queue_job ::
  "ResourceAllocator \<Rightarrow> Job \<Rightarrow> string list \<Rightarrow> real \<Rightarrow> py_error option \<times> ResourceAllocator" where
  "queue_job a job types now =
     (let score = calculate_priority_score job types now;
          queue_entry = \<lparr>qe_priority_score = score, qe_job_id = job_id job, qe_job = job,
                         processing_types = types, queued_at = now\<rparr>;
          pushed = heappush (ra_job_queue a) (- score, queue_entry)
      in (fst pushed, a\<lparr>ra_job_queue := snd pushed\<rparr>))"

definition get_next_job :: "ResourceAllocator \<Rightarrow> string option" where
  "get_next_job a = (case ra_job_queue a of [] \<Rightarrow> None | item # rest \<Rightarrow> Some (qe_job_id (snd item)))"

text \<open>\<^verbatim>\<open>_calculate_total_requirements\<close>: sums over the known types, longest duration.\<close>

fun calculate_total_requirements :: "string list \<Rightarrow> ResourceRequirement" where
  "calculate_total_requirements [] = requirement 0 0 0 0 0"
| "calculate_total_requirements (t # ts) =
     (let total = calculate_total_requirements ts
      in case map_of processing_requirements t of
           Some req \<Rightarrow>
             requirement (cpu_cores req + cpu_cores total) (memory_mb req + memory_mb total)
               (disk_mb req + disk_mb total) (network_mbps req + network_mbps total)
               (max (estimated_duration_seconds req) (estimated_duration_seconds total))
         | None \<Rightarrow> total)"

text \<open>
  \<^verbatim>\<open>_find_best_worker\<close>: the workers with enough of all four resources, each with its
  fit score; a worker of this kind with \<^verbatim>\<open>max_cpu\<close> or \<^verbatim>\<open>max_memory\<close> zero makes the
  quotient raise, and the handler answers \<^verbatim>\<open>None\<close>. The sort is stable, so the first
  worker of the least score wins.
\<close>

definition suitable :: "WorkerResource \<Rightarrow> ResourceRequirement \<Rightarrow> bool" where
  "suitable w req =
     (available_cpu w \<ge> cpu_cores req \<and> available_memory w \<ge> memory_mb req \<and>
      available_disk w \<ge> disk_mb req \<and> available_network w \<ge> network_mbps req)"

fun collect_suitable ::
  "WorkerResource list \<Rightarrow> ResourceRequirement \<Rightarrow> py_error + (real \<times> WorkerResource) list" where
  "collect_suitable [] req = Inr []"
| "collect_suitable (w # ws) req =
     (if suitable w req then
        (if max_cpu w = 0 \<or> max_memory w = 0 then Inl ZeroDivisionError
         else (let cpu_utilization = (available_cpu w - cpu_cores req) / max_cpu w;
                   memory_utilization = (available_memory w - memory_mb req) / max_memory w;
                   fit_score = cpu_utilization + memory_utilization
               in case collect_suitable ws req of
                    Inl e \<Rightarrow> Inl e
                  | Inr rest \<Rightarrow> Inr ((fit_score, w) # rest)))
      else collect_suitable ws req)"

definition find_best_worker :: "ResourceAllocator \<Rightarrow> ResourceRequirement \<Rightarrow> WorkerResource option" where
  "find_best_worker a req =
     (case collect_suitable (map snd (worker_resources a)) req of
        Inl e \<Rightarrow> None
      | Inr [] \<Rightarrow> None
      | Inr (x # xs) \<Rightarrow> Some (snd (hd (sort_key fst (x # xs)))))"

text \<open>
  \<^verbatim>\<open>allocate_resources\<close>: what it returns and the allocator after the call. The worker
  that is charged is the dictionary's entry under the best worker's id. When the final
  \<^verbatim>\<open>heapify\<close> raises, the handler returns \<^verbatim>\<open>None\<close> with the charge and the
  allocation already made.
\<close>

definition allocate_resources ::
  "ResourceAllocator \<Rightarrow> string \<Rightarrow> ResourceAllocation option \<times> ResourceAllocator" where
  "allocate_resources a jid =
     (case find (\<lambda>item. qe_job_id (snd item) = jid) (ra_job_queue a) of
        None \<Rightarrow> (None, a)
      | Some item \<Rightarrow>
          (let queue_entry = snd item;
               total = calculate_total_requirements (processing_types queue_entry)
           in case find_best_worker a total of
                None \<Rightarrow> (None, a)
              | Some best_worker \<Rightarrow>
                  (let allocation =
                         \<lparr>alloc_job_id = jid, alloc_worker_id = worker_id best_worker,
                          allocated_cpu = cpu_cores total, allocated_memory = memory_mb total,
                          allocated_disk = disk_mb total,
                          estimated_duration = estimated_duration_seconds total,
                          priority_score = \<bar>qe_priority_score queue_entry\<bar>\<rparr>
                   in case map_of (worker_resources a) (worker_id best_worker) of
                        None \<Rightarrow> (None, a)
                      | Some worker \<Rightarrow>
                          (let worker' = worker
                                 \<lparr>available_cpu := available_cpu worker - cpu_cores total,
                                  available_memory := available_memory worker - memory_mb total,
                                  available_disk := available_disk worker - disk_mb total,
                                  available_network :=
                                    available_network worker - network_mbps total\<rparr>;
                               heaped = heapify (filter (\<lambda>item. qe_job_id (snd item) \<noteq> jid)
                                                   (ra_job_queue a));
                               a' = a\<lparr>ra_job_queue := snd heaped,
                                      worker_resources :=
                                        AList.update (worker_id best_worker) worker'
                                          (worker_resources a),
                                      job_allocations := (job_allocations a)(jid \<mapsto> allocation)\<rparr>
                           in case fst heaped of
                                Some e \<Rightarrow> (None, a')
                              | None \<Rightarrow> (Some allocation, a')))))"

text \<open>
  \<^verbatim>\<open>release_resources\<close>: the network is given back with the allocation's disk amount
  (the allocation records no network amount), and all four are capped at the maximum.
\<close>

definition released :: "WorkerResource \<Rightarrow> ResourceAllocation \<Rightarrow> WorkerResource" where
  "released worker allocation =
     worker\<lparr>available_cpu := min (available_cpu worker + allocated_cpu allocation) (max_cpu worker),
            available_memory :=
              min (available_memory worker + allocated_memory allocation) (max_memory worker),
            available_disk :=
              min (available_disk worker + allocated_disk allocation) (max_disk worker),
            available_network :=
              min (available_network worker + allocated_disk allocation) (max_network worker)\<rparr>"

definition release_resources :: "ResourceAllocator \<Rightarrow> string \<Rightarrow> ResourceAllocator" where
  "release_resources a jid =
     (case job_allocations a jid of
        None \<Rightarrow> a
      | Some allocation \<Rightarrow>
          (let a1 = (case map_of (worker_resources a) (alloc_worker_id allocation) of
                       None \<Rightarrow> a
                     | Some worker \<Rightarrow>
                         a\<lparr>worker_resources :=
                             AList.update (alloc_worker_id allocation)
                               (released worker allocation) (worker_resources a)\<rparr>)
           in a1\<lparr>job_allocations := (job_allocations a1)(jid := None)\<rparr>))"

text \<open>Sequences of calls on one allocator.\<close>

datatype AllocOp =
  RegisterWorker string "(string \<times> real) list"
  | QueueJob Job "string list" real
  | Allocate string
  | Release string

fun apply_alloc_op :: "ResourceAllocator \<Rightarrow> AllocOp \<Rightarrow> ResourceAllocator" where
  "apply_alloc_op a (RegisterWorker wid resources) = register_worker a wid resources"
| "apply_alloc_op a (QueueJob job types now) = snd (queue_job a job types now)"
| "apply_alloc_op a (Allocate jid) = snd (allocate_resources a jid)"
| "apply_alloc_op a (Release jid) = release_resources a jid"

definition run_alloc_ops :: "ResourceAllocator \<Rightarrow> AllocOp list \<Rightarrow> ResourceAllocator" where
  "run_alloc_ops a ops = foldl apply_alloc_op a ops"

text \<open>A registration names capacities that are not negative.\<close>

fun capacities_ok :: "AllocOp \<Rightarrow> bool" where
  "capacities_ok (RegisterWorker wid resources) =
     (0 \<le> resource_get resources ''cpu'' 2 \<and> 0 \<le> resource_get resources ''memory'' 4096 \<and>
      0 \<le> resource_get resources ''disk'' 10000 \<and> 0 \<le> resource_get resources ''network'' 100)"
| "capacities_ok op = True"

text \<open>A worker's ledger is within bounds, and the allocator's invariant.\<close>

definition within_bounds :: "WorkerResource \<Rightarrow> bool" where
  "within_bounds w =
     (0 \<le> available_cpu w \<and> available_cpu w \<le> max_cpu w \<and>
      0 \<le> available_memory w \<and> available_memory w \<le> max_memory w \<and>
      0 \<le> available_disk w \<and> available_disk w \<le> max_disk w)"

definition allocator_inv :: "ResourceAllocator \<Rightarrow> bool" where
  "allocator_inv a =
     (distinct (map fst (worker_resources a)) \<and>
      list_all (\<lambda>kw. worker_id (snd kw) = fst kw \<and> within_bounds (snd kw)) (worker_resources a) \<and>
      (\<forall>jid al. job_allocations a jid = Some al \<longrightarrow>
         0 \<le> allocated_cpu al \<and> 0 \<le> allocated_memory al \<and> 0 \<le> allocated_disk al))"

section \<open>Properties\<close>

subsection \<open>Worker scaler\<close>

text \<open>
  C9. With 60 queued jobs, 5 current workers and a ceiling of 20, the decision is
  \<^verbatim>\<open>scale_up\<close> to 10 workers with the reason ``High queue load - adding 5 workers'',
  whatever the load score, the current load, the total capacity (zero included: the
  quotient is never evaluated), the thresholds, the floor and the worker table are.
\<close>

theorem C9_scale_up_high_queue:
  "determine_scaling_action (s\<lparr>current_workers := 5, max_workers := 20\<rparr>)
       load_score 60 current_load total_capacity
     = Inr (''scale_up'', 10, ''High queue load - adding 5 workers'')"
  by (simp add: determine_scaling_action_def scale_up_target_def Let_def)

subsection \<open>Dead letter queue\<close>



subsection \<open>Retry handler\<close>

lemma failure_patterns_eq:
  "failure_patterns =
     [(''connection'', TRANSIENT), (''timeout'', TIMEOUT), (''network'', TRANSIENT),
      (''temporary'', TRANSIENT), (''resource'', TRANSIENT),
      (''invalid'', PERMANENT), (''not found'', PERMANENT), (''permission'', PERMANENT),
      (''authentication'', PERMANENT), (''format'', PERMANENT), (''corrupt'', PERMANENT),
      (''rate limit'', RATE_LIMIT), (''too many'', RATE_LIMIT), (''quota'', RATE_LIMIT),
      (''deadline'', TIMEOUT)]"
  by (simp add: failure_patterns_def failure_patterns_literal_def)

lemma permanent_never_retries:
  "classify_failure error = PERMANENT \<Longrightarrow>
     should_retry h job error config u now = ((False, 0), h)"
  by (simp add: should_retry_def Let_def)

text \<open>
  C7 as stated fails: a \<^verbatim>\<open>ConnectionError\<close> whose message is ``Host not found'' matches
  the earlier pattern \<^verbatim>\<open>connection\<close> (in its type name), is classified transient, and
  \<^verbatim>\<open>should_retry\<close> answers \<^verbatim>\<open>(True, 0.5)\<close> on the first attempt.
\<close>

theorem C7_counterexample:
  "contains (lower ''Host not found'') ''not found'' \<and>
   classify_failure
     \<lparr>exc_type = ''ConnectionError'', exc_message = ''Host not found'',
      exc_classes = [''ConnectionError'', ''OSError'', ''Exception'']\<rparr> = TRANSIENT \<and>
   fst (should_retry RetryHandler_new (Job_new ''job-1'' '''' 0)
          \<lparr>exc_type = ''ConnectionError'', exc_message = ''Host not found'',
           exc_classes = [''ConnectionError'', ''OSError'', ''Exception'']\<rparr>
          (Some (default_config\<lparr>max_attempts := 5\<rparr>)) (1/2) 0) = (True, 1/2)"
  by (simp add: classify_failure_def failure_patterns_eq lower_def lower_char_def
        should_retry_def Let_def RetryHandler_new_def Job_new_def get_attempt_count_def
        default_config_def calculate_delay_def strategy_delay_def py_pow_def uniform_def)

text \<open>
  C7, amended. If the lower-cased message contains ``not found'' and none of the five
  patterns that precede the permanent ones in the table (\<^verbatim>\<open>connection\<close>,
  \<^verbatim>\<open>timeout\<close>, \<^verbatim>\<open>network\<close>, \<^verbatim>\<open>temporary\<close>, \<^verbatim>\<open>resource\<close>) occurs in the
  lower-cased message or type name, the failure is classified permanent and
  \<^verbatim>\<open>should_retry\<close> answers \<^verbatim>\<open>(False, 0)\<close> and records nothing: on the first attempt
  and on any other, for every configuration.
\<close>

theorem C7_not_found_is_permanent:
  assumes "contains (lower (exc_message error)) ''not found''"
    and "\<forall>p \<in> set [''connection'', ''timeout'', ''network'', ''temporary'', ''resource''].
           \<not> contains (lower (exc_message error)) p \<and> \<not> contains (lower (exc_type error)) p"
  shows "classify_failure error = PERMANENT \<and>
         should_retry h job error config u now = ((False, 0), h)"
proof -
  have "classify_failure error = PERMANENT"
    using assms by (simp add: classify_failure_def failure_patterns_eq Let_def)
  then show ?thesis by (simp add: permanent_never_retries)
qed

text \<open>A job without history, five attempts allowed, an error ``Input file Not Found''.\<close>

theorem C7_witness:
  "contains (lower ''Input file Not Found'') ''not found'' \<and>
   retry_history RetryHandler_new ''job-1'' = None \<and>
   classify_failure
     \<lparr>exc_type = ''FileNotFoundError'', exc_message = ''Input file Not Found'',
      exc_classes = [''FileNotFoundError'', ''OSError'', ''Exception'']\<rparr> = PERMANENT \<and>
   should_retry RetryHandler_new (Job_new ''job-1'' '''' 0)
     \<lparr>exc_type = ''FileNotFoundError'', exc_message = ''Input file Not Found'',
      exc_classes = [''FileNotFoundError'', ''OSError'', ''Exception'']\<rparr>
     (Some (default_config\<lparr>max_attempts := 5\<rparr>)) (1/2) 0 = ((False, 0), RetryHandler_new)"
  using C7_not_found_is_permanent
    [where h = RetryHandler_new and job = "Job_new ''job-1'' '''' 0"
       and config = "Some (default_config\<lparr>max_attempts := 5\<rparr>)" and u = "1/2" and now = 0
       and error = "\<lparr>exc_type = ''FileNotFoundError'', exc_message = ''Input file Not Found'',
                    exc_classes = [''FileNotFoundError'', ''OSError'', ''Exception'']\<rparr>"]
  by (simp add: lower_def lower_char_def RetryHandler_new_def)






subsection \<open>Job requests\<close>

text \<open>
  C5 as stated fails: a request that sets both \<^verbatim>\<open>pipeline_id\<close> and
  \<^verbatim>\<open>custom_pipeline\<close> passes the validator and \<^verbatim>\<open>create_job\<close> makes a pending job
  of it, whichever fields the validator was shown.
\<close>

theorem C5_counterexample:
  "truthy_str (rq_pipeline_id (example_request\<lparr>rq_custom_pipeline := Some example_pipeline\<rparr>)) \<and>
   rq_custom_pipeline (example_request\<lparr>rq_custom_pipeline := Some example_pipeline\<rparr>) \<noteq> None \<and>
   (case api_create_job JobManager_new False
           (example_request\<lparr>rq_custom_pipeline := Some example_pipeline\<rparr>) ''job-1'' 0 of
      Inl e \<Rightarrow> False
    | Inr (job, m') \<Rightarrow>
        status job = PENDING \<and> pipeline_id job = Some ''image_resize'' \<and>
        custom_pipeline job = Some example_pipeline \<and> active_jobs m' ''job-1'' = Some job) \<and>
   (case api_create_job JobManager_new True
           (example_request\<lparr>rq_custom_pipeline := Some example_pipeline\<rparr>) ''job-1'' 0 of
      Inl e \<Rightarrow> False
    | Inr (job, m') \<Rightarrow>
        status job = PENDING \<and> pipeline_id job = Some ''image_resize'' \<and>
        custom_pipeline job = Some example_pipeline \<and> active_jobs m' ''job-1'' = Some job)"
  by (simp add: api_create_job_def JobRequest_new_def validate_pipeline_def
        validated_before_def create_job_def Let_def set_job_def save_job_def
        example_request_def)

text \<open>
  C5, amended. A request whose \<^verbatim>\<open>pipeline_id\<close> is set (a non-empty string) is
  accepted, whether \<^verbatim>\<open>custom_pipeline\<close> is set as well or not, and \<^verbatim>\<open>create_job\<close>
  returns a pending job for it; a request with neither field set is rejected with the
  validator's \<^verbatim>\<open>ValueError\<close>. Both hold whichever fields the validator is shown.
\<close>

theorem C5_pipeline_id_required:
  "(truthy_str (rq_pipeline_id body) \<longrightarrow>
      api_create_job m custom_seen body new_id now = Inr (create_job m body new_id now) \<and>
      status (fst (create_job m body new_id now)) = PENDING) \<and>
   (\<not> truthy_str (rq_pipeline_id body) \<and> rq_custom_pipeline body = None \<longrightarrow>
      api_create_job m custom_seen body new_id now = Inl ValueError)"
  by (simp add: api_create_job_def JobRequest_new_def validate_pipeline_def
        validated_before_def create_job_def Let_def)

text \<open>A request with a pipeline id only, and one with neither field.\<close>

theorem C5_witness:
  "truthy_str (rq_pipeline_id example_request) \<and>
   api_create_job JobManager_new False example_request ''job-1'' 0
     = Inr (create_job JobManager_new example_request ''job-1'' 0) \<and>
   \<not> truthy_str (rq_pipeline_id (example_request\<lparr>rq_pipeline_id := None\<rparr>)) \<and>
   rq_custom_pipeline (example_request\<lparr>rq_pipeline_id := None\<rparr>) = None \<and>
   api_create_job JobManager_new False (example_request\<lparr>rq_pipeline_id := None\<rparr>) ''job-2'' 0
     = Inl ValueError"
  using C5_pipeline_id_required
    [where body = example_request and m = JobManager_new and custom_seen = False
       and new_id = "''job-1''" and now = 0]
    C5_pipeline_id_required
    [where body = "example_request\<lparr>rq_pipeline_id := None\<rparr>" and m = JobManager_new
       and custom_seen = False and new_id = "''job-2''" and now = 0]
  by (simp add: example_request_def)

subsection \<open>Job lifecycle\<close>







































subsection \<open>Batch progress\<close>

lemma concat_chunks: "0 < n \<Longrightarrow> concat (chunks n xs) = xs"
proof (induction n xs rule: chunks.induct)
  case (1 n xs)
  show ?case
  proof (cases "xs = []")
    case True
    then show ?thesis by (simp add: chunks.simps)
  next
    case False
    then have "chunks n xs = take n xs # chunks n (drop n xs)"
      using "1.prems" by (subst chunks.simps) simp
    then show ?thesis using "1.IH" "1.prems" False by simp
  qed
qed

lemma update_batch_progress_ok:
  "file_ids b \<noteq> [] \<Longrightarrow> progress_ok (length (file_ids b)) (update_batch_progress b js)"
  by (simp add: progress_ok_def update_batch_progress_def Let_def counted_files_def)

lemma update_batch_progress_frame:
  "file_ids (update_batch_progress b js) = file_ids b"
  "b_status (update_batch_progress b js) = b_status b"
  by (simp_all add: update_batch_progress_def Let_def)

lemma handle_result_frame:
  "file_ids (batch_job (handle_result st item)) = file_ids (batch_job st)"
  "b_status (batch_job (handle_result st item)) = b_status (batch_job st)"
  by (auto simp: handle_result_def Let_def update_batch_progress_frame split: gather_result.splits)

lemma handle_result_ok:
  "file_ids (batch_job st) \<noteq> [] \<Longrightarrow>
     progress_ok (length (file_ids (batch_job st))) (batch_job (handle_result st item))"
  by (cases "snd item")
     (simp_all add: handle_result_def Let_def update_batch_progress_ok)

lemma handle_result_counts:
  "length (run_successful (handle_result st item))
     = length (run_successful st) + (if came_back_completed (snd item) then 1 else 0)"
  "length (run_failed (handle_result st item))
     = length (run_failed st) + (if came_back_completed (snd item) then 0 else 1)"
  by (cases "snd item"; simp add: handle_result_def Let_def)+

lemma run_states_append:
  "run_states f s (xs @ ys)
     = run_states f s xs @ run_states f (last (s # run_states f s xs)) ys"
  by (induction xs arbitrary: s) simp_all

lemma process_chunks_concat:
  "process_chunks st cs = run_states handle_result st (concat cs)"
  by (induction cs arbitrary: st) (simp_all add: run_states_append Let_def)

lemma run_states_ok:
  assumes "file_ids (batch_job st) \<noteq> []"
  shows "\<forall>s \<in> set (run_states handle_result st items).
           file_ids (batch_job s) = file_ids (batch_job st) \<and>
           b_status (batch_job s) = b_status (batch_job st) \<and>
           progress_ok (length (file_ids (batch_job st))) (batch_job s)"
  using assms
proof (induction items arbitrary: st)
  case Nil
  then show ?case by simp
next
  case (Cons item items)
  have f: "file_ids (batch_job (handle_result st item)) = file_ids (batch_job st)"
    and s: "b_status (batch_job (handle_result st item)) = b_status (batch_job st)"
    by (rule handle_result_frame)+
  have ok: "progress_ok (length (file_ids (batch_job st))) (batch_job (handle_result st item))"
    using Cons.prems by (rule handle_result_ok)
  have "file_ids (batch_job (handle_result st item)) \<noteq> []" using Cons.prems f by simp
  from Cons.IH [OF this] show ?case using f s ok by simp
qed

lemma run_states_last:
  "length (run_successful (last (st # run_states handle_result st items)))
     = length (run_successful st) + length (filter (\<lambda>item. came_back_completed (snd item)) items) \<and>
   length (run_failed (last (st # run_states handle_result st items)))
     = length (run_failed st) + length (filter (\<lambda>item. \<not> came_back_completed (snd item)) items) \<and>
   file_ids (batch_job (last (st # run_states handle_result st items))) = file_ids (batch_job st)"
proof (induction items arbitrary: st)
  case Nil
  then show ?case by simp
next
  case (Cons item items)
  show ?case
    using Cons.IH [of "handle_result st item"]
    by (simp add: handle_result_counts handle_result_frame)
qed

lemma length_filter_split:
  "length (filter P xs) + length (filter (\<lambda>x. \<not> P x) xs) = length xs"
  by (induction xs) simp_all

lemma filter_snd_zip:
  "length xs = length ys \<Longrightarrow>
     length (filter (\<lambda>item. P (snd item)) (zip xs ys)) = length (filter P ys)"
  by (induction xs ys rule: list_induct2) simp_all

lemma completed_count:
  "length (filter (\<lambda>item. came_back_completed (snd item)) (gathered b outcome_of))
     = length (filter (\<lambda>i. came_back_completed (outcome_of i)) [0..<length (file_ids b)])"
proof -
  have "length (filter (\<lambda>item. came_back_completed (snd item)) (gathered b outcome_of))
        = length (filter came_back_completed (map outcome_of [0..<length (file_ids b)]))"
    unfolding gathered_def by (rule filter_snd_zip) simp
  also have "\<dots> = length (filter (\<lambda>i. came_back_completed (outcome_of i)) [0..<length (file_ids b)])"
    by (simp add: filter_map o_def)
  finally show ?thesis .
qed

lemma start_batch_frame:
  "file_ids (start_batch b) = file_ids b"
  "chunk_size (start_batch b) = chunk_size b"
  "b_status (start_batch b) = RUNNING"
  "batch_pipeline svc (start_batch b) = batch_pipeline svc b"
  "gathered (start_batch b) outcome_of = gathered b outcome_of"
  by (simp_all add: start_batch_def Let_def batch_pipeline_def gathered_def)

lemma start_batch_progress:
  "b_progress (start_batch b) = Some p \<Longrightarrow>
     counted_files p = int (length (file_ids b)) \<and> completed_files p = 0 \<and>
     progress_percentage p = 0"
  by (auto simp: start_batch_def Let_def counted_files_def)

lemma fail_batch_job_frame:
  "b_progress (fail_batch_job b msg) = b_progress b"
  "b_status (fail_batch_job b msg) = FAILED"
  by (simp_all add: fail_batch_job_def)

lemma complete_batch_job_props:
  "b_status (complete_batch_job b succ fl) = COMPLETED"
  "b_progress (complete_batch_job b succ fl) = Some p \<Longrightarrow>
     counted_files p = int (length succ) + int (length fl) \<and>
     completed_files p = int (length succ) \<and> progress_percentage p = 100"
  "\<exists>p. b_progress (complete_batch_job b succ fl) = Some p"
  by (auto simp: complete_batch_job_def counted_files_def)

lemma process_batch_unfold:
  assumes "0 < chunk_size b"
  shows "process_batch_job_async svc b outcome_of =
      (case batch_pipeline svc b of
         None \<Rightarrow> [start_batch b, fail_batch_job (start_batch b) ''Pipeline not found'']
       | Some pipeline \<Rightarrow>
           (let st0 = \<lparr>batch_job = start_batch b, jobs = [], run_successful = [], run_failed = []\<rparr>;
                tr = run_states handle_result st0 (gathered b outcome_of);
                st = last (st0 # tr)
            in start_batch b # map batch_job tr
               @ [complete_batch_job (batch_job st) (run_successful st) (run_failed st)]))"
proof -
  have ch: "file_chunks (chunk_size b) (gathered b outcome_of)
              = Inr (chunks (nat (chunk_size b)) (gathered b outcome_of))"
    using assms by (simp add: file_chunks_def)
  have "0 < nat (chunk_size b)" using assms by simp
  then have cc: "concat (chunks (nat (chunk_size b)) (gathered b outcome_of))
                   = gathered b outcome_of"
    by (rule concat_chunks)
  show ?thesis
    unfolding process_batch_job_async_def Let_def start_batch_frame ch sum.case
      process_chunks_concat cc ..
qed

text \<open>
  C8 as stated fails: \<^verbatim>\<open>_complete_batch_job\<close> writes the final progress with 100
  percent, whatever the number of completed files. In a batch of two files of which one
  comes back completed and one failed, the progress after each file is 50 percent and the
  final one 100, not 100 * 1 / 2.
\<close>

theorem C8_counterexample:
  "length (file_ids example_batch) = 2 \<and>
   map progress_summary
     (process_batch_job_async example_service example_batch example_outcomes)
     = [Some (0, 0, 0, 2, 0), Some (1, 0, 0, 1, 50), Some (1, 1, 0, 0, 50),
        Some (1, 1, 0, 0, 100)] \<and>
   progress_summary
     (last (process_batch_job_async example_service example_batch example_outcomes))
     = Some (1, 1, 0, 0, 100) \<and>
   (100::real) \<noteq> 100 * 1 / 2"
  by (simp add: process_batch_job_async_def start_batch_def gathered_def batch_pipeline_def
        example_service_def example_batch_def BatchJob_new_def example_outcomes_def Job_new_def
        file_chunks_def chunks.simps handle_result_def update_batch_progress_def
        complete_batch_job_def progress_summary_def Let_def upt_rec)

text \<open>
  C8, amended. For a batch of \<open>F\<close> files, \<open>F\<close> at least 1, with a positive chunk
  size: at every value that the batch job takes during and after processing, the four
  counts of its progress add up to \<open>F\<close>; the percentage is 100 times the completed
  count over \<open>F\<close> as long as the batch is not completed, and 100 once it is. When the
  pipeline resolves, processing ends with the batch completed, the percentage 100 and the
  completed count the number of files whose job came back completed.
\<close>

theorem C8_batch_progress:
  assumes cs: "0 < chunk_size b" and ne: "file_ids b \<noteq> []"
  shows "(\<forall>s \<in> set (process_batch_job_async svc b outcome_of). \<forall>p. b_progress s = Some p \<longrightarrow>
            counted_files p = int (length (file_ids b)) \<and>
            progress_percentage p
              = (if b_status s = COMPLETED then 100
                 else 100 * real_of_int (completed_files p) / real (length (file_ids b)))) \<and>
         (batch_pipeline svc b \<noteq> None \<longrightarrow>
            (\<exists>p. b_status (last (process_batch_job_async svc b outcome_of)) = COMPLETED \<and>
                 b_progress (last (process_batch_job_async svc b outcome_of)) = Some p \<and>
                 progress_percentage p = 100 \<and>
                 completed_files p
                   = int (length (filter (\<lambda>i. came_back_completed (outcome_of i))
                                    [0..<length (file_ids b)]))))"
proof -
  define F where "F = length (file_ids b)"
  define b1 where "b1 = start_batch b"
  define items where "items = gathered b outcome_of"
  define st0 where "st0 = \<lparr>batch_job = b1, jobs = [], run_successful = [], run_failed = []\<rparr>"
  define tr where "tr = run_states handle_result st0 items"
  define st where "st = last (st0 # tr)"
  define fin where "fin = complete_batch_job (batch_job st) (run_successful st) (run_failed st)"
  define good :: "BatchJob \<Rightarrow> bool" where "good = (\<lambda>s. \<forall>p. b_progress s = Some p \<longrightarrow>
            counted_files p = int F \<and>
            progress_percentage p
              = (if b_status s = COMPLETED then 100
                 else 100 * real_of_int (completed_files p) / real F))"
  have unfold: "process_batch_job_async svc b outcome_of =
      (case batch_pipeline svc b of
         None \<Rightarrow> [b1, fail_batch_job b1 ''Pipeline not found'']
       | Some pipeline \<Rightarrow> b1 # map batch_job tr @ [fin])"
    unfolding process_batch_unfold [OF cs] fin_def st_def tr_def st0_def items_def b1_def Let_def ..
  have st0f: "file_ids (batch_job st0) \<noteq> []"
    using ne by (simp add: st0_def b1_def start_batch_frame)
  have trok: "\<forall>s \<in> set tr. b_status (batch_job s) = RUNNING \<and> progress_ok F (batch_job s)"
    using run_states_ok [OF st0f, of items]
    by (simp add: tr_def st0_def b1_def start_batch_frame F_def)
  have lens: "length items = F" by (simp add: items_def gathered_def F_def)
  have last3: "length (run_successful st)
      = length (filter (\<lambda>item. came_back_completed (snd item)) items)"
    "length (run_failed st)
      = length (filter (\<lambda>item. \<not> came_back_completed (snd item)) items)"
    using run_states_last [of st0 items] by (simp_all add: st_def tr_def st0_def)
  have sum: "length (run_successful st) + length (run_failed st) = F"
    unfolding last3
    using length_filter_split [of "\<lambda>item. came_back_completed (snd item)" items] lens
    by simp
  have comp: "length (run_successful st)
      = length (filter (\<lambda>i. came_back_completed (outcome_of i)) [0..<F])"
    unfolding last3 items_def F_def by (rule completed_count)
  have g1: "good b1"
    unfolding good_def b1_def F_def
    using start_batch_progress [of b] by (auto simp: start_batch_frame)
  have gf: "good (fail_batch_job b1 msg)" for msg
    unfolding good_def b1_def F_def
    using start_batch_progress [of b] by (auto simp: fail_batch_job_frame)
  have gt: "\<forall>s \<in> set (map batch_job tr). good s"
    unfolding good_def using trok by (auto simp: progress_ok_def)
  have gfin: "good fin"
    unfolding good_def fin_def
    using complete_batch_job_props(2) [of "batch_job st" "run_successful st" "run_failed st"] sum
    by (auto simp: complete_batch_job_props(1))
  have fin2: "\<exists>p. b_status fin = COMPLETED \<and> b_progress fin = Some p \<and>
                 progress_percentage p = 100 \<and>
                 completed_files p
                   = int (length (filter (\<lambda>i. came_back_completed (outcome_of i)) [0..<F]))"
    unfolding fin_def
    using complete_batch_job_props(2,3) [of "batch_job st" "run_successful st" "run_failed st"]
      comp
    by (auto simp: complete_batch_job_props(1))
  have A: "\<forall>s \<in> set (process_batch_job_async svc b outcome_of). good s"
  proof (cases "batch_pipeline svc b")
    case None
    have "\<forall>s \<in> set [b1, fail_batch_job b1 ''Pipeline not found'']. good s"
      using g1 gf by simp
    then show ?thesis unfolding unfold None option.case .
  next
    case (Some pipeline)
    have "\<forall>s \<in> set (b1 # map batch_job tr @ [fin]). good s"
      using g1 gt gfin by simp
    then show ?thesis unfolding unfold Some option.case .
  qed
  have A': "\<forall>s \<in> set (process_batch_job_async svc b outcome_of). \<forall>p. b_progress s = Some p \<longrightarrow>
            counted_files p = int (length (file_ids b)) \<and>
            progress_percentage p
              = (if b_status s = COMPLETED then 100
                 else 100 * real_of_int (completed_files p) / real (length (file_ids b)))"
    using A unfolding good_def F_def .
  have B: "\<exists>p. b_status (last (process_batch_job_async svc b outcome_of)) = COMPLETED \<and>
                 b_progress (last (process_batch_job_async svc b outcome_of)) = Some p \<and>
                 progress_percentage p = 100 \<and>
                 completed_files p
                   = int (length (filter (\<lambda>i. came_back_completed (outcome_of i))
                                    [0..<length (file_ids b)]))"
    if "batch_pipeline svc b \<noteq> None"
  proof -
    from that obtain pipeline where Some: "batch_pipeline svc b = Some pipeline" by blast
    have l: "last (b1 # map batch_job tr @ [fin]) = fin" by simp
    show ?thesis unfolding unfold Some option.case l using fin2 unfolding F_def .
  qed
  show ?thesis
  proof (intro conjI impI)
    show "\<forall>s \<in> set (process_batch_job_async svc b outcome_of). \<forall>p. b_progress s = Some p \<longrightarrow>
            counted_files p = int (length (file_ids b)) \<and>
            progress_percentage p
              = (if b_status s = COMPLETED then 100
                 else 100 * real_of_int (completed_files p) / real (length (file_ids b)))"
      by (rule A')
  next
    assume "batch_pipeline svc b \<noteq> None"
    then show "\<exists>p. b_status (last (process_batch_job_async svc b outcome_of)) = COMPLETED \<and>
                 b_progress (last (process_batch_job_async svc b outcome_of)) = Some p \<and>
                 progress_percentage p = 100 \<and>
                 completed_files p
                   = int (length (filter (\<lambda>i. came_back_completed (outcome_of i))
                                    [0..<length (file_ids b)]))"
      by (rule B)
  qed
qed

text \<open>The batch of two files: every count adds up to 2, the final percentage is 100.\<close>

theorem C8_witness:
  "(0::int) < chunk_size example_batch \<and> file_ids example_batch \<noteq> [] \<and>
   batch_pipeline example_service example_batch \<noteq> None \<and>
   map (map_option counted_files \<circ> b_progress)
     (process_batch_job_async example_service example_batch example_outcomes)
     = [Some 2, Some 2, Some 2, Some 2] \<and>
   b_status (last (process_batch_job_async example_service example_batch example_outcomes))
     = COMPLETED"
  using C8_batch_progress
    [where b = example_batch and svc = example_service and outcome_of = example_outcomes]
  by (simp add: process_batch_job_async_def start_batch_def gathered_def batch_pipeline_def
        example_service_def example_batch_def BatchJob_new_def example_outcomes_def Job_new_def
        file_chunks_def chunks.simps handle_result_def update_batch_progress_def
        complete_batch_job_def counted_files_def Let_def upt_rec)

end
